theory Spec2Isabelle
  imports Main
begin

section \<open>Canvas Link Optimizer: the patched link node of \<^verbatim>\<open>src/main.ts\<close>\<close>

text \<open>
  The plugin patches five methods of the host's link node (\<^verbatim>\<open>patchLinkNode\<close>):
  \<^verbatim>\<open>_saveThumbnail\<close>, \<^verbatim>\<open>_getThumbnailPath\<close>, \<^verbatim>\<open>_getMetadataPath\<close>,
  \<^verbatim>\<open>initialize\<close> and \<^verbatim>\<open>recreateFrame\<close>. The code is event driven: promises, timers,
  DOM listeners and a MutationObserver. Each handler is embedded as a function on an
  explicit state, and every \<^verbatim>\<open>await\<close> is a point where the handler stops and a later
  event resumes it. Time is a clock in milliseconds.
\<close>

subsection \<open>Strings and the style attribute\<close>

text \<open>
  JavaScript strings are lists of code units; the model covers code units below 256.
  \<open>js_space\<close> is the class \<^verbatim>\<open>\s\<close> on that range, which is also what \<^verbatim>\<open>trim()\<close> strips.
\<close>

definition js_space :: "char \<Rightarrow> bool" where
  "js_space c = (c \<in> set [CHR 0x09, CHR 0x0A, CHR 0x0B, CHR 0x0C, CHR 0x0D, CHR 0x20, CHR 0xA0])"

definition trim :: "string \<Rightarrow> string" where
  "trim s = rev (dropWhile js_space (rev (dropWhile js_space s)))"

text \<open>
  One attempt of the regular expression \<^verbatim>\<open>key\s*([^;]+)(;|$)\<close> at the start of \<open>s\<close>,
  returning group 1. \<^verbatim>\<open>\s*\<close> is greedy; when nothing but \<^verbatim>\<open>;\<close> or the end follows the
  white space, the engine backtracks by one character and the group is the last white
  space character. \<^verbatim>\<open>[^;]+\<close> always runs up to the next \<^verbatim>\<open>;\<close> or the end.
\<close>

definition match_here :: "string \<Rightarrow> string \<Rightarrow> string option" where
  "match_here key s =
     (if take (length key) s = key then
        (let r = drop (length key) s;
             ws = takeWhile js_space r;
             rest = dropWhile js_space r
         in case rest of
              c # cs \<Rightarrow>
                if c = CHR '';'' then (if ws = [] then None else Some [last ws])
                else Some (takeWhile (\<lambda>x. x \<noteq> CHR '';'') rest)
            | [] \<Rightarrow> (if ws = [] then None else Some [last ws]))
      else None)"

text \<open>\<^verbatim>\<open>String.prototype.match\<close> without the global flag: the leftmost position that matches.\<close>

fun regex_search :: "string \<Rightarrow> string \<Rightarrow> string option" where
  "regex_search key [] = match_here key []"
| "regex_search key (c # cs) =
     (case match_here key (c # cs) of
        Some g \<Rightarrow> Some g
      | None \<Rightarrow> regex_search key cs)"

text \<open>\<^verbatim>\<open>m ? m[1].trim() : ""\<close> for \<^verbatim>\<open>m = oldValue.match(/key\s*([^;]+)(;|$)/)\<close>.\<close>

definition old_dimension :: "string \<Rightarrow> string \<Rightarrow> string" where
  "old_dimension key oldValue =
     (case regex_search key oldValue of Some g \<Rightarrow> trim g | None \<Rightarrow> [])"

subsection \<open>The debounced callback\<close>

text \<open>
  \<^verbatim>\<open>debounce(cb, timeout, resetTimer)\<close> is a function of the obsidian library, outside
  this repository. Its state is the deadline of the pending timer. A call with no timer
  pending starts one; a call made while a timer is pending restarts it only when
  \<^verbatim>\<open>resetTimer\<close> is true. The flag is an argument of the model; \<^verbatim>\<open>initialize\<close> calls
  \<^verbatim>\<open>debounce(() => this._saveThumbnail(), 500)\<close>, with no third argument.
\<close>

definition debounce_call :: "bool \<Rightarrow> nat \<Rightarrow> nat \<Rightarrow> nat option \<Rightarrow> nat option" where
  "debounce_call resetTimer timeout t timer =
     (case timer of
        None \<Rightarrow> Some (t + timeout)
      | Some d \<Rightarrow> if resetTimer then Some (t + timeout) else Some d)"

subsection \<open>Mutation records and the geometry filter\<close>

record mutation =
  mtype :: string
  attributeName :: "string option"
  oldValue :: "string option"

text \<open>
  The test of lines 84 to 100 on one record: \<open>Skip\<close> is \<^verbatim>\<open>continue\<close>, \<open>Stop\<close> is
  \<^verbatim>\<open>return\<close>, \<open>Save\<close> is the call \<^verbatim>\<open>saveThumbnail()\<close>. \<open>newWidth\<close> and \<open>newHeight\<close> are
  \<^verbatim>\<open>target.style.width\<close> and \<^verbatim>\<open>target.style.height\<close> when the callback runs.
\<close>

datatype verdict = Skip | Stop | Save

definition classify :: "string \<Rightarrow> string \<Rightarrow> mutation \<Rightarrow> verdict" where
  "classify newWidth newHeight m =
     (if mtype m = ''attributes'' \<and> attributeName m = Some ''style'' then
        (let old = (case oldValue m of None \<Rightarrow> [] | Some v \<Rightarrow> v);
             oldWidth = old_dimension ''width:'' old;
             oldHeight = old_dimension ''height:'' old
         in if oldWidth = [] \<or> oldHeight = [] \<or> newWidth = [] \<or> newHeight = [] then Stop
            else if newWidth = oldWidth \<and> newHeight = oldHeight then Stop
            else Save)
      else Skip)"

text \<open>The loop over the batch, threading the debounce timer; \<open>t\<close> is the current time.\<close>

fun mutation_loop :: "nat \<Rightarrow> string \<Rightarrow> string \<Rightarrow> mutation list \<Rightarrow> nat option \<Rightarrow> nat option" where
  "mutation_loop t nw nh [] timer = timer"
| "mutation_loop t nw nh (m # ms) timer =
     (case classify nw nh m of
        Skip \<Rightarrow> mutation_loop t nw nh ms timer
      | Stop \<Rightarrow> timer
      | Save \<Rightarrow> mutation_loop t nw nh ms (debounce_call False 500 t timer))"

subsection \<open>The node, its surroundings and the host\<close>

text \<open>
  \<^verbatim>\<open>JSON.parse\<close>, \<^verbatim>\<open>JSON.stringify\<close> and the host application are not part of the
  repository; they are fields of \<open>host\<close>. A parsed value is a \<open>json\<close> (an object lists each
  of its properties once; a number is kept as its text); \<^verbatim>\<open>JSON.parse\<close> throwing is \<open>None\<close>.
\<close>

datatype json =
    JNull
  | JBool bool
  | JNumber string
  | JString string
  | JArray "json list"
  | JObject "(string \<times> json) list"

datatype jsvalue = Undefined | Val json

datatype js_error = SyntaxError | TypeError | ReadError

datatype ret = Null | HostResult

text \<open>The async function of lines 114 to 150: where it waits, or how it ended.\<close>

datatype lookup_stage = NotStarted | AwaitingExists | AwaitingRead | Settled | Rejected js_error

text \<open>Who called \<^verbatim>\<open>_saveThumbnail\<close>: \<^verbatim>\<open>onFrameLoaded\<close> (line 174) or the debounced callback.\<close>

datatype origin = FromLoad | FromResize

record frame =
  tagName :: string
  pageTitle :: string
  loadListeners :: nat

record img =
  src :: string
  alt :: string
  classList :: "string list"
  attached :: bool
  listeners :: "string list"

text \<open>The link node object \<^verbatim>\<open>this\<close>, with the fields the patch reads or writes.\<close>

record link_node =
  nid :: string
  url :: string
  initializing :: bool
  alwaysKeepLoaded :: bool
  frameEl :: "frame option"
  perviewImageEl :: "img option"
  nodeLabel :: "jsvalue option"

text \<open>
  Everything else one node's handlers touch. \<open>observing\<close>, \<open>debounceTimer\<close> and \<open>lookup\<close>
  are the locals of one call of \<^verbatim>\<open>initialize\<close> (\<^verbatim>\<open>resizeObserver\<close>, \<^verbatim>\<open>saveThumbnail\<close> and
  the async function); \<open>settleTimers\<close> holds the deadline of every pending \<^verbatim>\<open>sleep(1000)\<close>;
  \<open>inflight\<close> the calls of \<^verbatim>\<open>capturePage()\<close> that have not resolved; \<open>files\<close> is the vault.
  The last five fields only record what happened: log lines, unhandled rejections of
  \<^verbatim>\<open>_saveThumbnail\<close> and \<^verbatim>\<open>onFrameLoaded\<close>, calls of the host's own \<^verbatim>\<open>recreateFrame\<close>, the times at which
  \<^verbatim>\<open>capturePage()\<close> was called, and the writes to the vault in order.
\<close>

record world =
  node :: link_node
  observing :: bool
  debounceTimer :: "nat option"
  lookup :: lookup_stage
  settleTimers :: "nat list"
  inflight :: "origin list"
  now :: nat
  files :: "string \<rightharpoonup> string"
  plog :: "string list"
  rejections :: "js_error list"
  activations :: nat
  captureStarts :: "nat list"
  writes :: "(string \<times> string) list"

text \<open>
  \<open>origInitCalls\<close> is the number of times the host's own \<^verbatim>\<open>initialize\<close> calls
  \<^verbatim>\<open>this.recreateFrame()\<close>; \<open>origRecreateFrame\<close> is what the host's own \<^verbatim>\<open>recreateFrame\<close>
  leaves in \<^verbatim>\<open>this.frameEl\<close>; \<open>destroy\<close> is what the host does to the node object when
  it removes the node.
\<close>

record host =
  cacheDir :: string
  JSON_parse :: "string \<Rightarrow> json option"
  JSON_stringify :: "json \<Rightarrow> string"
  getResourcePath :: "string \<Rightarrow> string"
  origInitCalls :: nat
  origRecreateFrame :: "frame option \<Rightarrow> frame option"
  destroy :: "link_node \<Rightarrow> link_node"

datatype event =
    ExistsResolved
  | ReadResolved
  | Click
  | ImgError
  | Mutations string string "mutation list"
  | FrameLoaded
  | TitleChanged string
  | CaptureResolved nat string
  | Elapse nat

subsection \<open>The patched methods\<close>

definition getThumbnailPath :: "host \<Rightarrow> world \<Rightarrow> string" where
  "getThumbnailPath h w = cacheDir h @ ''/'' @ nid (node w) @ ''.thumbnail.jpg''"

definition getMetadataPath :: "host \<Rightarrow> world \<Rightarrow> string" where
  "getMetadataPath h w = cacheDir h @ ''/'' @ nid (node w) @ ''.metadata.json''"

text \<open>\<^verbatim>\<open>adapter.write\<close> and \<^verbatim>\<open>adapter.writeBinary\<close>; the code awaits neither.\<close>

definition write_file :: "string \<Rightarrow> string \<Rightarrow> world \<Rightarrow> world" where
  "write_file p c w = w\<lparr>files := (files w)(p \<mapsto> c), writes := writes w @ [(p, c)]\<rparr>"

text \<open>
  \<^verbatim>\<open>_saveThumbnail\<close>, lines 60 to 64, up to its \<^verbatim>\<open>await\<close>. \<^verbatim>\<open>capturePage\<close> and \<^verbatim>\<open>getTitle\<close>
  are methods of a \<^verbatim>\<open>WEBVIEW\<close> element only: on any other frame the call of line 64 throws
  after the log line, and the promise of \<^verbatim>\<open>_saveThumbnail\<close> is rejected with nothing
  captured.
\<close>

definition saveThumbnail :: "origin \<Rightarrow> world \<Rightarrow> world" where
  "saveThumbnail orig w =
     (case frameEl (node w) of
        None \<Rightarrow> w
      | Some f \<Rightarrow>
          if tagName f = ''WEBVIEW'' then
            w\<lparr>plog := plog w @ [''Saving thumbnail for '' @ url (node w)],
              inflight := inflight w @ [orig],
              captureStarts := captureStarts w @ [now w]\<rparr>
          else
            w\<lparr>plog := plog w @ [''Saving thumbnail for '' @ url (node w)],
              rejections := rejections w @ [TypeError]\<rparr>)"

text \<open>
  \<^verbatim>\<open>capturePage()\<close> number \<open>i\<close> resolves with an image whose JPEG bytes are \<open>jpeg\<close>: lines 65
  and 66, then line 175 when \<^verbatim>\<open>onFrameLoaded\<close> was waiting for it.
\<close>

definition captureResolved :: "host \<Rightarrow> nat \<Rightarrow> string \<Rightarrow> world \<Rightarrow> world" where
  "captureResolved h i jpeg w =
     (if i < length (inflight w) then
        (let w' = write_file (getThumbnailPath h w) jpeg
                    (w\<lparr>inflight := take i (inflight w) @ drop (Suc i) (inflight w)\<rparr>)
         in case inflight w ! i of
              FromLoad \<Rightarrow> w'\<lparr>plog := plog w' @ [''Cached link '' @ url (node w)]\<rparr>
            | FromResize \<Rightarrow> w')
      else w)"

text \<open>\<^verbatim>\<open>recreateFrame\<close>, lines 155 to 182.\<close>

definition recreateFrame :: "host \<Rightarrow> world \<Rightarrow> ret \<times> world" where
  "recreateFrame h w =
     (if initializing (node w) then (Null, w)
      else
        (let created = origRecreateFrame h (frameEl (node w));
             listening =
               (case created of
                  None \<Rightarrow> None
                | Some f \<Rightarrow>
                    if tagName f = ''WEBVIEW''
                    then Some (f\<lparr>loadListeners := Suc (loadListeners f)\<rparr>)
                    else Some f)
         in (HostResult,
             w\<lparr>node := (node w)\<lparr>frameEl := listening\<rparr>,
               activations := Suc (activations w)\<rparr>)))"

text \<open>
  The event \<^verbatim>\<open>did-frame-finish-load\<close> on the current frame: every \<^verbatim>\<open>onFrameLoaded\<close>
  listener removes itself and starts \<^verbatim>\<open>sleep(1000)\<close> (lines 163 to 166).
\<close>

definition frameLoaded :: "world \<Rightarrow> world" where
  "frameLoaded w =
     (case frameEl (node w) of
        None \<Rightarrow> w
      | Some f \<Rightarrow>
          w\<lparr>node := (node w)\<lparr>frameEl := Some (f\<lparr>loadListeners := 0\<rparr>)\<rparr>,
            settleTimers := settleTimers w @ replicate (loadListeners f) (now w + 1000)\<rparr>)"

text \<open>
  \<^verbatim>\<open>onFrameLoaded\<close> after the sleep, lines 169 to 174. \<^verbatim>\<open>this.frameEl.getTitle()\<close> throws
  when the frame is gone, or is no longer a \<^verbatim>\<open>WEBVIEW\<close>, before anything is written.
\<close>

definition onFrameLoaded_resume :: "host \<Rightarrow> world \<Rightarrow> world" where
  "onFrameLoaded_resume h w =
     (case frameEl (node w) of
        None \<Rightarrow> w\<lparr>rejections := rejections w @ [TypeError]\<rparr>
      | Some f \<Rightarrow>
          if tagName f = ''WEBVIEW'' then
            saveThumbnail FromLoad
              (write_file (getMetadataPath h w)
                 (JSON_stringify h (JObject [(''title'', JString (pageTitle f))])) w)
          else w\<lparr>rejections := rejections w @ [TypeError]\<rparr>)"

text \<open>
  \<^verbatim>\<open>initialize\<close>, lines 74 to 124, up to the first \<^verbatim>\<open>await\<close> of its async function.
  The state holds the locals of one call: the model follows a node from the one call of
  \<^verbatim>\<open>initialize\<close> its construction makes. A second call on the same node would add a second
  observer and a second debounced callback beside the first, which this state cannot
  hold; no property below applies \<open>initialize\<close> to a node that has been initialized.
\<close>

definition initialize :: "host \<Rightarrow> world \<Rightarrow> world" where
  "initialize h w =
     (let w1 = w\<lparr>node := (node w)\<lparr>initializing := True\<rparr>\<rparr>;
          w2 = ((\<lambda>x. snd (recreateFrame h x)) ^^ origInitCalls h) w1;
          w3 = w2\<lparr>node := (node w2)\<lparr>initializing := False\<rparr>\<rparr>
      in w3\<lparr>debounceTimer := None, observing := True, lookup := AwaitingExists\<rparr>)"

text \<open>
  The two \<^verbatim>\<open>exists\<close> promises resolve, lines 121 to 135. The source tests
  \<^verbatim>\<open>!thumbnailExists || !metadataExists\<close> and returns; the branches are swapped here.
\<close>

definition existsResolved :: "host \<Rightarrow> world \<Rightarrow> world" where
  "existsResolved h w =
     (if lookup w = AwaitingExists then
        (if files w (getThumbnailPath h w) \<noteq> None \<and> files w (getMetadataPath h w) \<noteq> None
         then w\<lparr>node := (node w)\<lparr>alwaysKeepLoaded := False\<rparr>, lookup := AwaitingRead\<rparr>
         else (snd (recreateFrame h w))\<lparr>lookup := Settled\<rparr>)
      else w)"

text \<open>\<^verbatim>\<open>metadata.title\<close>: reading a property of \<^verbatim>\<open>null\<close> throws.\<close>

fun get_title :: "json \<Rightarrow> js_error + jsvalue" where
  "get_title JNull = Inl TypeError"
| "get_title (JObject props) =
     Inr (case map_of props ''title'' of None \<Rightarrow> Undefined | Some v \<Rightarrow> Val v)"
| "get_title v = Inr Undefined"

text \<open>The \<^verbatim>\<open>read\<close> promise resolves or rejects, lines 134 to 149.\<close>

definition readResolved :: "host \<Rightarrow> world \<Rightarrow> world" where
  "readResolved h w =
     (if lookup w = AwaitingRead then
        (case files w (getMetadataPath h w) of
           None \<Rightarrow> w\<lparr>lookup := Rejected ReadError\<rparr>
         | Some metadataRaw \<Rightarrow>
             (case JSON_parse h metadataRaw of
                None \<Rightarrow> w\<lparr>lookup := Rejected SyntaxError\<rparr>
              | Some metadata \<Rightarrow>
                  (case get_title metadata of
                     Inl e \<Rightarrow> w\<lparr>lookup := Rejected e\<rparr>
                   | Inr title \<Rightarrow>
                       w\<lparr>node := (node w)
                            \<lparr>nodeLabel := Some title,
                             perviewImageEl := Some
                               \<lparr>src = getResourcePath h (getThumbnailPath h w),
                                alt = ''Webpage thumbnail'',
                                classList = [''link-thumbnail''],
                                attached = True,
                                listeners = [''click'', ''error'']\<rparr>\<rparr>,
                         lookup := Settled\<rparr>)))
      else w)"

text \<open>\<^verbatim>\<open>revealWebview\<close>, lines 115 to 119; \<^verbatim>\<open>remove()\<close> detaches the image, the field stays.\<close>

definition revealWebview :: "host \<Rightarrow> world \<Rightarrow> world" where
  "revealWebview h w =
     snd (recreateFrame h
       (w\<lparr>node := (node w)
            \<lparr>alwaysKeepLoaded := True,
             perviewImageEl := map_option (\<lambda>i. i\<lparr>attached := False\<rparr>) (perviewImageEl (node w))\<rparr>\<rparr>))"

text \<open>A click reaches the image only while it is in the document; an error event always.\<close>

definition click :: "host \<Rightarrow> world \<Rightarrow> world" where
  "click h w =
     (case perviewImageEl (node w) of
        None \<Rightarrow> w
      | Some i \<Rightarrow> if attached i \<and> ''click'' \<in> set (listeners i) then revealWebview h w else w)"

definition imgError :: "host \<Rightarrow> world \<Rightarrow> world" where
  "imgError h w =
     (case perviewImageEl (node w) of
        None \<Rightarrow> w
      | Some i \<Rightarrow> if ''error'' \<in> set (listeners i) then revealWebview h w else w)"

text \<open>The observer's callback, lines 82 to 103, for one batch of records.\<close>

definition observerCallback :: "string \<Rightarrow> string \<Rightarrow> mutation list \<Rightarrow> world \<Rightarrow> world" where
  "observerCallback newWidth newHeight ms w =
     (if observing w
      then w\<lparr>debounceTimer := mutation_loop (now w) newWidth newHeight ms (debounceTimer w)\<rparr>
      else w)"

definition titleChanged :: "string \<Rightarrow> world \<Rightarrow> world" where
  "titleChanged s w =
     w\<lparr>node := (node w)\<lparr>frameEl := map_option (\<lambda>f. f\<lparr>pageTitle := s\<rparr>) (frameEl (node w))\<rparr>\<rparr>"

subsection \<open>Timers\<close>

datatype timer = DebounceTimer | SettleTimer nat

text \<open>The earliest deadline of a list and its position; of equal deadlines the first.\<close>

fun earliest_settle :: "nat list \<Rightarrow> (nat \<times> nat) option" where
  "earliest_settle [] = None"
| "earliest_settle (d # ds) =
     (case earliest_settle ds of
        None \<Rightarrow> Some (d, 0)
      | Some (e, i) \<Rightarrow> if d \<le> e then Some (d, 0) else Some (e, Suc i))"

text \<open>
  The next timer to fire. A sleep that ends at the same instant as the debounce timer
  was started 500 ms before it, so it fires first.
\<close>

definition next_timer :: "world \<Rightarrow> (nat \<times> timer) option" where
  "next_timer w =
     (case earliest_settle (settleTimers w) of
        None \<Rightarrow> (case debounceTimer w of None \<Rightarrow> None | Some b \<Rightarrow> Some (b, DebounceTimer))
      | Some (d, i) \<Rightarrow>
          (case debounceTimer w of
             None \<Rightarrow> Some (d, SettleTimer i)
           | Some b \<Rightarrow> if d \<le> b then Some (d, SettleTimer i) else Some (b, DebounceTimer)))"

definition fire_timer :: "host \<Rightarrow> timer \<Rightarrow> world \<Rightarrow> world" where
  "fire_timer h k w =
     (case k of
        DebounceTimer \<Rightarrow> saveThumbnail FromResize (w\<lparr>debounceTimer := None\<rparr>)
      | SettleTimer i \<Rightarrow>
          onFrameLoaded_resume h
            (w\<lparr>settleTimers := take i (settleTimers w) @ drop (Suc i) (settleTimers w)\<rparr>))"

definition pending :: "world \<Rightarrow> nat" where
  "pending w = length (settleTimers w) + (case debounceTimer w of None \<Rightarrow> 0 | Some b \<Rightarrow> 1)"

lemma earliest_settle_index:
  "earliest_settle ds = Some (d, i) \<Longrightarrow> i < length ds"
proof (induction ds arbitrary: d i)
  case Nil
  then show ?case by simp
next
  case (Cons a ds)
  then show ?case
    by (cases "earliest_settle ds") (auto split: if_splits)
qed

lemma pending_saveThumbnail: "pending (saveThumbnail orig w) = pending w"
  by (simp add: pending_def saveThumbnail_def split: option.splits if_splits)

lemma pending_onFrameLoaded_resume: "pending (onFrameLoaded_resume h w) = pending w"
  by (simp add: pending_def onFrameLoaded_resume_def saveThumbnail_def write_file_def
      split: option.splits if_splits)

lemma pending_fire_timer:
  assumes "next_timer w = Some (d, k)"
  shows "pending (fire_timer h k (w\<lparr>now := t\<rparr>)) < pending w"
proof (cases k)
  case DebounceTimer
  with assms obtain b where "debounceTimer w = Some b"
    by (auto simp: next_timer_def split: option.splits if_splits)
  with DebounceTimer show ?thesis
    by (simp add: fire_timer_def pending_saveThumbnail) (simp add: pending_def)
next
  case (SettleTimer i)
  with assms obtain e where "earliest_settle (settleTimers w) = Some (e, i)"
    by (auto simp: next_timer_def split: option.splits if_splits)
  then have "i < length (settleTimers w)"
    by (rule earliest_settle_index)
  with SettleTimer show ?thesis
    by (simp add: fire_timer_def pending_onFrameLoaded_resume) (simp add: pending_def)
qed

text \<open>
  Time passes up to \<open>t\<close>: the timers due by then fire in the order of their deadlines.
  A firing starts no timer, so the loop ends.
\<close>

function elapse_to :: "host \<Rightarrow> nat \<Rightarrow> world \<Rightarrow> world" where
  "elapse_to h t w =
     (case next_timer w of
        None \<Rightarrow> w\<lparr>now := max (now w) t\<rparr>
      | Some (d, k) \<Rightarrow>
          if d \<le> t then elapse_to h t (fire_timer h k (w\<lparr>now := max (now w) d\<rparr>))
          else w\<lparr>now := max (now w) t\<rparr>)"
  by pat_completeness auto
termination
  by (relation "measure (\<lambda>(h, t, w). pending w)") (auto simp: pending_fire_timer)

declare elapse_to.simps [simp del]

subsection \<open>Events\<close>

fun step :: "host \<Rightarrow> event \<Rightarrow> world \<Rightarrow> world" where
  "step h ExistsResolved w = existsResolved h w"
| "step h ReadResolved w = readResolved h w"
| "step h Click w = click h w"
| "step h ImgError w = imgError h w"
| "step h (Mutations newWidth newHeight ms) w = observerCallback newWidth newHeight ms w"
| "step h FrameLoaded w = frameLoaded w"
| "step h (TitleChanged s) w = titleChanged s w"
| "step h (CaptureResolved i jpeg) w = captureResolved h i jpeg w"
| "step h (Elapse d) w = elapse_to h (now w + d) w"

definition run :: "host \<Rightarrow> event list \<Rightarrow> world \<Rightarrow> world" where
  "run h evs w = fold (step h) evs w"

text \<open>
  The plugin patches no method that runs when a node is removed, and nothing in
  \<^verbatim>\<open>src/main.ts\<close> calls \<^verbatim>\<open>disconnect()\<close> on the observer, cancels the debounced callback
  or clears a sleep; the disposer of line 184 restores the five methods of the
  prototype. A teardown is therefore the host's own, on the node object.
\<close>

definition teardown :: "host \<Rightarrow> world \<Rightarrow> world" where
  "teardown h w = w\<lparr>node := destroy h (node w)\<rparr>"

subsection \<open>A host and a node to run the model on\<close>

text \<open>
  \<open>example_parse\<close> and \<open>example_stringify\<close> stand for \<^verbatim>\<open>JSON.parse\<close> and \<^verbatim>\<open>JSON.stringify\<close>
  and agree with them on the values that occur in the examples: the text
  \<open>example_metadata\<close>, texts that are not JSON, and objects with one string property
  that needs no escaping. \<open>platform tag\<close> is a host whose own \<^verbatim>\<open>recreateFrame\<close> creates an
  element with that tag name: \<^verbatim>\<open>WEBVIEW\<close> on the desktop, \<^verbatim>\<open>IFRAME\<close> on mobile.
\<close>

definition example_metadata :: string where
  "example_metadata =
     ''{'' @ [CHR 0x22] @ ''title'' @ [CHR 0x22] @ '':'' @ [CHR 0x22] @ ''Example'' @ [CHR 0x22] @ ''}''"

definition example_parse :: "string \<Rightarrow> json option" where
  "example_parse s =
     (if s = example_metadata then Some (JObject [(''title'', JString ''Example'')]) else None)"

definition example_stringify :: "json \<Rightarrow> string" where
  "example_stringify j =
     (case j of
        JObject [(k, JString s)] \<Rightarrow>
          ''{'' @ [CHR 0x22] @ k @ [CHR 0x22] @ '':'' @ [CHR 0x22] @ s @ [CHR 0x22] @ ''}''
      | _ \<Rightarrow> [])"

definition fresh_node :: link_node where
  "fresh_node = \<lparr>nid = ''n1'', url = ''https://example.org'', initializing = False,
     alwaysKeepLoaded = True, frameEl = None, perviewImageEl = None, nodeLabel = None\<rparr>"

definition fresh_world :: "(string \<rightharpoonup> string) \<Rightarrow> world" where
  "fresh_world fs = \<lparr>node = fresh_node, observing = False, debounceTimer = None,
     lookup = NotStarted, settleTimers = [], inflight = [], now = 0, files = fs, plog = [],
     rejections = [], activations = 0, captureStarts = [], writes = []\<rparr>"

definition platform :: "string \<Rightarrow> host" where
  "platform tag = \<lparr>cacheDir = ''linkCache'', JSON_parse = example_parse,
     JSON_stringify = example_stringify, getResourcePath = (\<lambda>p. ''app://local/'' @ p),
     origInitCalls = 1,
     origRecreateFrame = (\<lambda>f. Some \<lparr>tagName = tag, pageTitle = [], loadListeners = 0\<rparr>),
     destroy = (\<lambda>n. n\<lparr>frameEl := None\<rparr>)\<rparr>"

text \<open>One record of the observer: the style attribute was \<open>old\<close>, the style is now as given.\<close>

definition example_resize :: "string \<Rightarrow> string \<Rightarrow> string \<Rightarrow> event" where
  "example_resize old newWidth newHeight =
     Mutations newWidth newHeight
       [\<lparr>mtype = ''attributes'', attributeName = Some ''style'', oldValue = Some old\<rparr>]"

subsection \<open>Bursts of geometry events\<close>

text \<open>
  A burst is a list of observer batches and waits; \<open>waited\<close> is the time it takes.
\<close>

text \<open>
  The loop of lines 83 to 102 reaches \<^verbatim>\<open>saveThumbnail()\<close>: a record of the batch
  qualifies before any record makes the callback return.
\<close>

fun batch_saves :: "string \<Rightarrow> string \<Rightarrow> mutation list \<Rightarrow> bool" where
  "batch_saves nw nh [] = False"
| "batch_saves nw nh (m # ms) =
     (case classify nw nh m of
        Skip \<Rightarrow> batch_saves nw nh ms
      | Stop \<Rightarrow> False
      | Save \<Rightarrow> True)"

fun geometry_only :: "event \<Rightarrow> bool" where
  "geometry_only (Mutations newWidth newHeight ms) = True"
| "geometry_only (Elapse d) = True"
| "geometry_only e = False"

fun waited :: "event list \<Rightarrow> nat" where
  "waited [] = 0"
| "waited (Elapse d # evs) = d + waited evs"
| "waited (e # evs) = waited evs"

section \<open>Properties\<close>

lemmas handlers =
  existsResolved_def readResolved_def recreateFrame_def titleChanged_def frameLoaded_def
  click_def imgError_def revealWebview_def observerCallback_def captureResolved_def
  next_timer_def fire_timer_def onFrameLoaded_resume_def saveThumbnail_def write_file_def
  getMetadataPath_def getThumbnailPath_def debounce_call_def Let_def

subsection \<open>Running the model\<close>

lemma run_Nil: "run h [] w = w"
  by (simp add: run_def)

lemma run_Cons: "run h (e # evs) w = run h evs (step h e w)"
  by (simp add: run_def)

lemma run_append: "run h (evs @ evs') w = run h evs' (run h evs w)"
  by (simp add: run_def)

lemma elapse_to_none:
  "next_timer w = None \<Longrightarrow> elapse_to h t w = w\<lparr>now := max (now w) t\<rparr>"
  by (subst elapse_to.simps) simp

lemma elapse_to_later:
  "next_timer w = Some (d, k) \<Longrightarrow> t < d \<Longrightarrow> elapse_to h t w = w\<lparr>now := max (now w) t\<rparr>"
  by (subst elapse_to.simps) simp

lemma elapse_to_fire:
  "next_timer w = Some (d, k) \<Longrightarrow> d \<le> t \<Longrightarrow>
     elapse_to h t w = elapse_to h t (fire_timer h k (w\<lparr>now := max (now w) d\<rparr>))"
  by (subst elapse_to.simps) simp

text \<open>A timer that fires touches neither the node object nor the lookup.\<close>

lemma fire_timer_keeps:
  "node (fire_timer h k w) = node w"
  "lookup (fire_timer h k w) = lookup w"
  "activations (fire_timer h k w) = activations w"
  "observing (fire_timer h k w) = observing w"
  by (simp_all add: fire_timer_def saveThumbnail_def onFrameLoaded_resume_def write_file_def
      split: timer.splits option.splits if_splits)

lemma elapse_to_keeps:
  "node (elapse_to h t w) = node w \<and> lookup (elapse_to h t w) = lookup w
   \<and> activations (elapse_to h t w) = activations w \<and> observing (elapse_to h t w) = observing w"
proof (induction h t w rule: elapse_to.induct)
  case (1 h t w)
  show ?case
  proof (cases "next_timer w")
    case None
    then show ?thesis by (simp add: elapse_to_none)
  next
    case (Some p)
    obtain d k where p: "p = (d, k)" by (cases p)
    show ?thesis
    proof (cases "d \<le> t")
      case True
      from Some p True
      have "elapse_to h t w = elapse_to h t (fire_timer h k (w\<lparr>now := max (now w) d\<rparr>))"
        by (simp add: elapse_to_fire)
      moreover
      have "node (elapse_to h t (fire_timer h k (w\<lparr>now := max (now w) d\<rparr>)))
              = node (fire_timer h k (w\<lparr>now := max (now w) d\<rparr>))
          \<and> lookup (elapse_to h t (fire_timer h k (w\<lparr>now := max (now w) d\<rparr>)))
              = lookup (fire_timer h k (w\<lparr>now := max (now w) d\<rparr>))
          \<and> activations (elapse_to h t (fire_timer h k (w\<lparr>now := max (now w) d\<rparr>)))
              = activations (fire_timer h k (w\<lparr>now := max (now w) d\<rparr>))
          \<and> observing (elapse_to h t (fire_timer h k (w\<lparr>now := max (now w) d\<rparr>)))
              = observing (fire_timer h k (w\<lparr>now := max (now w) d\<rparr>))"
        by (rule "1.IH" [OF Some p [symmetric] True])
      ultimately show ?thesis
        by (simp add: fire_timer_keeps)
    next
      case False
      with Some p show ?thesis by (simp add: elapse_to_later)
    qed
  qed
qed

text \<open>
  Once the lookup is past both of its waits, an event other than a click or an error of
  the image (or any event, when there is no image) leaves the lookup, the image and the
  label alone, does not run the host's \<^verbatim>\<open>recreateFrame\<close>, and creates no frame.
\<close>

lemma quiet_step:
  assumes "lookup w \<noteq> AwaitingExists" and "lookup w \<noteq> AwaitingRead"
    and "e \<noteq> Click \<and> e \<noteq> ImgError \<or> perviewImageEl (node w) = None"
  shows "lookup (step h e w) = lookup w
     \<and> activations (step h e w) = activations w
     \<and> perviewImageEl (node (step h e w)) = perviewImageEl (node w)
     \<and> nodeLabel (node (step h e w)) = nodeLabel (node w)
     \<and> (frameEl (node w) = None \<longrightarrow> frameEl (node (step h e w)) = None)"
proof (cases e)
  case (Elapse d)
  then show ?thesis by (simp add: elapse_to_keeps)
next
  case Click
  with assms show ?thesis by (simp add: click_def)
next
  case ImgError
  with assms show ?thesis by (simp add: imgError_def)
next
  case (CaptureResolved i jpeg)
  then show ?thesis
    by (simp add: captureResolved_def write_file_def Let_def split: origin.splits)
qed (use assms in \<open>simp_all add: existsResolved_def readResolved_def observerCallback_def
      frameLoaded_def titleChanged_def split: option.splits\<close>)

lemma quiet_run:
  assumes "lookup w \<noteq> AwaitingExists" and "lookup w \<noteq> AwaitingRead"
    and "Click \<notin> set evs \<and> ImgError \<notin> set evs \<or> perviewImageEl (node w) = None"
  shows "lookup (run h evs w) = lookup w
     \<and> activations (run h evs w) = activations w
     \<and> perviewImageEl (node (run h evs w)) = perviewImageEl (node w)
     \<and> nodeLabel (node (run h evs w)) = nodeLabel (node w)
     \<and> (frameEl (node w) = None \<longrightarrow> frameEl (node (run h evs w)) = None)"
  using assms
proof (induction evs arbitrary: w)
  case Nil
  then show ?case by (simp add: run_def)
next
  case (Cons e evs)
  from Cons.prems have e: "e \<noteq> Click \<and> e \<noteq> ImgError \<or> perviewImageEl (node w) = None"
    by auto
  note s = quiet_step [OF Cons.prems(1) Cons.prems(2) e, of h]
  from Cons.prems s
  have "Click \<notin> set evs \<and> ImgError \<notin> set evs \<or> perviewImageEl (node (step h e w)) = None"
    by auto
  with Cons.IH [of "step h e w"] Cons.prems s
  have "lookup (run h evs (step h e w)) = lookup (step h e w)
     \<and> activations (run h evs (step h e w)) = activations (step h e w)
     \<and> perviewImageEl (node (run h evs (step h e w))) = perviewImageEl (node (step h e w))
     \<and> nodeLabel (node (run h evs (step h e w))) = nodeLabel (node (step h e w))
     \<and> (frameEl (node (step h e w)) = None \<longrightarrow> frameEl (node (run h evs (step h e w))) = None)"
    by simp
  with s show ?case by (simp add: run_def)
qed

subsection \<open>Construction\<close>

lemma recreateFrame_suppressed:
  "initializing (node w) \<Longrightarrow> recreateFrame h w = (Null, w)"
  by (simp add: recreateFrame_def)

lemma suppressed_calls:
  "initializing (node w) \<Longrightarrow> ((\<lambda>x. snd (recreateFrame h x)) ^^ k) w = w"
  by (induction k) (simp_all add: recreateFrame_suppressed)

lemma initialize_eq:
  "initialize h w =
     w\<lparr>node := (node w)\<lparr>initializing := False\<rparr>,
       debounceTimer := None, observing := True, lookup := AwaitingExists\<rparr>"
  by (simp add: initialize_def Let_def suppressed_calls)

lemmas examples =
  initialize_eq fresh_world_def fresh_node_def platform_def example_resize_def
  example_stringify_def classify_def old_dimension_def match_here_def trim_def js_space_def

text \<open>
  Claim C10. A call of \<^verbatim>\<open>recreateFrame\<close> made while \<^verbatim>\<open>_initializing\<close> is set returns
  \<^verbatim>\<open>null\<close> and changes nothing: no frame is created and no load handler installed.
  So \<^verbatim>\<open>initialize\<close> leaves the frame as it was and never runs the host's
  \<^verbatim>\<open>recreateFrame\<close>, however often the host's own \<^verbatim>\<open>initialize\<close> calls it.
\<close>

theorem recreateFrame_null_while_initializing:
  "(initializing (node w) \<longrightarrow> recreateFrame h w = (Null, w))
   \<and> frameEl (node (initialize h w)) = frameEl (node w)
   \<and> activations (initialize h w) = activations w"
  by (simp add: recreateFrame_suppressed initialize_eq)

theorem recreateFrame_null_while_initializing_witness:
  "initializing (node ((fresh_world Map.empty)\<lparr>node := fresh_node\<lparr>initializing := True\<rparr>\<rparr>))
   \<and> recreateFrame (platform ''WEBVIEW'')
         ((fresh_world Map.empty)\<lparr>node := fresh_node\<lparr>initializing := True\<rparr>\<rparr>)
       = (Null, (fresh_world Map.empty)\<lparr>node := fresh_node\<lparr>initializing := True\<rparr>\<rparr>)
   \<and> frameEl (node (initialize (platform ''WEBVIEW'') (fresh_world Map.empty))) = None
   \<and> activations (initialize (platform ''WEBVIEW'') (fresh_world Map.empty)) = 0"
  using recreateFrame_null_while_initializing
          [of "(fresh_world Map.empty)\<lparr>node := fresh_node\<lparr>initializing := True\<rparr>\<rparr>"
              "platform ''WEBVIEW''"]
        recreateFrame_null_while_initializing [of "fresh_world Map.empty" "platform ''WEBVIEW''"]
  by (simp add: fresh_world_def fresh_node_def)

subsection \<open>Capture without a frame\<close>

text \<open>
  Claim C4. When \<^verbatim>\<open>this.frameEl\<close> is absent, \<^verbatim>\<open>_saveThumbnail\<close> returns at once and
  changes nothing: no log line, no capture, no write. That holds when the debounced
  callback calls it; and \<^verbatim>\<open>onFrameLoaded\<close>, resumed after its sleep without a frame, stops at
  \<^verbatim>\<open>getTitle()\<close> before it writes the metadata. Thumbnail and metadata stay as they were.
\<close>

theorem capture_without_frame_leaves_cache:
  "frameEl (node w) = None \<Longrightarrow>
     saveThumbnail orig w = w
     \<and> files (fire_timer h DebounceTimer w) = files w
     \<and> writes (fire_timer h DebounceTimer w) = writes w
     \<and> files (onFrameLoaded_resume h w) = files w
     \<and> writes (onFrameLoaded_resume h w) = writes w"
  by (simp add: saveThumbnail_def onFrameLoaded_resume_def fire_timer_def)

theorem capture_without_frame_leaves_cache_witness:
  "frameEl (node (fresh_world [''linkCache/n1.thumbnail.jpg'' \<mapsto> ''JPEG''])) = None
   \<and> saveThumbnail FromResize (fresh_world [''linkCache/n1.thumbnail.jpg'' \<mapsto> ''JPEG''])
       = fresh_world [''linkCache/n1.thumbnail.jpg'' \<mapsto> ''JPEG'']
   \<and> files (onFrameLoaded_resume (platform ''WEBVIEW'')
         (fresh_world [''linkCache/n1.thumbnail.jpg'' \<mapsto> ''JPEG'']))
         ''linkCache/n1.thumbnail.jpg'' = Some ''JPEG''
   \<and> files (onFrameLoaded_resume (platform ''WEBVIEW'')
         (fresh_world [''linkCache/n1.thumbnail.jpg'' \<mapsto> ''JPEG'']))
         ''linkCache/n1.metadata.json'' = None"
  using capture_without_frame_leaves_cache
          [of "fresh_world [''linkCache/n1.thumbnail.jpg'' \<mapsto> ''JPEG'']" FromResize
              "platform ''WEBVIEW''"]
  by (simp add: fresh_world_def fresh_node_def)

subsection \<open>The cache lookup\<close>

text \<open>
  Claim C7. When exactly one of the thumbnail and the metadata exists, the lookup takes
  the branch of line 125: it calls \<^verbatim>\<open>recreateFrame\<close>, which runs the host's own (the node
  goes live), and it sets neither image nor label. The lookup goes on to read the cache
  only when both files exist.
\<close>

theorem one_part_missing_is_cache_miss:
  assumes "lookup w = AwaitingExists" and "\<not> initializing (node w)"
  shows "((files w (getThumbnailPath h w) = None) \<noteq> (files w (getMetadataPath h w) = None) \<longrightarrow>
            existsResolved h w = (snd (recreateFrame h w))\<lparr>lookup := Settled\<rparr>
          \<and> activations (existsResolved h w) = Suc (activations w)
          \<and> perviewImageEl (node (existsResolved h w)) = perviewImageEl (node w)
          \<and> nodeLabel (node (existsResolved h w)) = nodeLabel (node w))
       \<and> ((lookup (existsResolved h w) = AwaitingRead) =
            (files w (getThumbnailPath h w) \<noteq> None \<and> files w (getMetadataPath h w) \<noteq> None))"
  using assms by (auto simp: existsResolved_def recreateFrame_def Let_def)

theorem one_part_missing_is_cache_miss_witness:
  "lookup (initialize (platform ''WEBVIEW'') (fresh_world [''linkCache/n1.thumbnail.jpg'' \<mapsto> ''JPEG'']))
     = AwaitingExists
   \<and> activations (existsResolved (platform ''WEBVIEW'')
        (initialize (platform ''WEBVIEW'') (fresh_world [''linkCache/n1.thumbnail.jpg'' \<mapsto> ''JPEG''])))
       = 1
   \<and> lookup (existsResolved (platform ''WEBVIEW'')
        (initialize (platform ''WEBVIEW'') (fresh_world [''linkCache/n1.thumbnail.jpg'' \<mapsto> ''JPEG''])))
       \<noteq> AwaitingRead"
  using one_part_missing_is_cache_miss
          [of "initialize (platform ''WEBVIEW'') (fresh_world [''linkCache/n1.thumbnail.jpg'' \<mapsto> ''JPEG''])"
              "platform ''WEBVIEW''"]
  by (simp add: initialize_eq fresh_world_def fresh_node_def platform_def
        getThumbnailPath_def getMetadataPath_def existsResolved_def recreateFrame_def)

text \<open>
  Claim C1. The lookup finds the thumbnail and the metadata, the metadata parses and its
  title can be read. Then the image is created with the thumbnail as its source and is
  in the document, the label is the title of the metadata, and through any events that
  follow, other than a click on the image or an error of the image, the host's
  \<^verbatim>\<open>recreateFrame\<close> is never run and there is no frame.
\<close>

theorem cache_hit_shows_snapshot_and_stays_dormant:
  assumes "lookup w = AwaitingExists"
    and "files w (getThumbnailPath h w) = Some jpeg"
    and "files w (getMetadataPath h w) = Some raw"
    and "JSON_parse h raw = Some metadata"
    and "get_title metadata = Inr title"
    and "frameEl (node w) = None"
    and "Click \<notin> set evs" and "ImgError \<notin> set evs"
  shows "perviewImageEl (node (run h (ExistsResolved # ReadResolved # evs) w)) =
           Some \<lparr>src = getResourcePath h (getThumbnailPath h w), alt = ''Webpage thumbnail'',
                 classList = [''link-thumbnail''], attached = True,
                 listeners = [''click'', ''error'']\<rparr>
       \<and> nodeLabel (node (run h (ExistsResolved # ReadResolved # evs) w)) = Some title
       \<and> frameEl (node (run h (ExistsResolved # ReadResolved # evs) w)) = None
       \<and> activations (run h (ExistsResolved # ReadResolved # evs) w) = activations w"
proof -
  define w2 where "w2 = step h ReadResolved (step h ExistsResolved w)"
  from assms have hit:
    "lookup w2 = Settled" "activations w2 = activations w" "frameEl (node w2) = None"
    "nodeLabel (node w2) = Some title"
    "perviewImageEl (node w2) =
       Some \<lparr>src = getResourcePath h (getThumbnailPath h w), alt = ''Webpage thumbnail'',
             classList = [''link-thumbnail''], attached = True,
             listeners = [''click'', ''error'']\<rparr>"
    by (simp_all add: w2_def existsResolved_def readResolved_def getThumbnailPath_def
        getMetadataPath_def)
  from hit(1) assms(7,8) quiet_run [of w2 evs h] hit(2-5)
  show ?thesis by (simp add: run_Cons w2_def)
qed

theorem cache_hit_shows_snapshot_and_stays_dormant_witness:
  "lookup (initialize (platform ''WEBVIEW'')
      (fresh_world [''linkCache/n1.thumbnail.jpg'' \<mapsto> ''JPEG'',
                    ''linkCache/n1.metadata.json'' \<mapsto> example_metadata])) = AwaitingExists
   \<and> JSON_parse (platform ''WEBVIEW'') example_metadata =
       Some (JObject [(''title'', JString ''Example'')])
   \<and> perviewImageEl (node (run (platform ''WEBVIEW'')
        (ExistsResolved # ReadResolved #
           [example_resize ''width: 100px; height: 100px;'' ''200px'' ''100px'', Elapse 600,
            FrameLoaded])
        (initialize (platform ''WEBVIEW'')
           (fresh_world [''linkCache/n1.thumbnail.jpg'' \<mapsto> ''JPEG'',
                         ''linkCache/n1.metadata.json'' \<mapsto> example_metadata])))) =
         Some \<lparr>src = ''app://local/linkCache/n1.thumbnail.jpg'', alt = ''Webpage thumbnail'',
               classList = [''link-thumbnail''], attached = True,
               listeners = [''click'', ''error'']\<rparr>
   \<and> nodeLabel (node (run (platform ''WEBVIEW'')
        (ExistsResolved # ReadResolved #
           [example_resize ''width: 100px; height: 100px;'' ''200px'' ''100px'', Elapse 600,
            FrameLoaded])
        (initialize (platform ''WEBVIEW'')
           (fresh_world [''linkCache/n1.thumbnail.jpg'' \<mapsto> ''JPEG'',
                         ''linkCache/n1.metadata.json'' \<mapsto> example_metadata])))) =
         Some (Val (JString ''Example''))
   \<and> frameEl (node (run (platform ''WEBVIEW'')
        (ExistsResolved # ReadResolved #
           [example_resize ''width: 100px; height: 100px;'' ''200px'' ''100px'', Elapse 600,
            FrameLoaded])
        (initialize (platform ''WEBVIEW'')
           (fresh_world [''linkCache/n1.thumbnail.jpg'' \<mapsto> ''JPEG'',
                         ''linkCache/n1.metadata.json'' \<mapsto> example_metadata])))) = None
   \<and> activations (run (platform ''WEBVIEW'')
        (ExistsResolved # ReadResolved #
           [example_resize ''width: 100px; height: 100px;'' ''200px'' ''100px'', Elapse 600,
            FrameLoaded])
        (initialize (platform ''WEBVIEW'')
           (fresh_world [''linkCache/n1.thumbnail.jpg'' \<mapsto> ''JPEG'',
                         ''linkCache/n1.metadata.json'' \<mapsto> example_metadata]))) = 0"
proof -
  let ?h = "platform ''WEBVIEW''"
  let ?w = "initialize ?h (fresh_world [''linkCache/n1.thumbnail.jpg'' \<mapsto> ''JPEG'',
                         ''linkCache/n1.metadata.json'' \<mapsto> example_metadata])"
  let ?evs = "[example_resize ''width: 100px; height: 100px;'' ''200px'' ''100px'', Elapse 600,
               FrameLoaded]"
  have 1: "lookup ?w = AwaitingExists"
    by (simp add: initialize_eq)
  have 2: "files ?w (getThumbnailPath ?h ?w) = Some ''JPEG''"
    by (simp add: initialize_eq getThumbnailPath_def platform_def fresh_world_def fresh_node_def)
  have 3: "files ?w (getMetadataPath ?h ?w) = Some example_metadata"
    by (simp add: initialize_eq getMetadataPath_def platform_def fresh_world_def fresh_node_def)
  have 4: "JSON_parse ?h example_metadata = Some (JObject [(''title'', JString ''Example'')])"
    by (simp add: platform_def example_parse_def)
  have 5: "get_title (JObject [(''title'', JString ''Example'')]) = Inr (Val (JString ''Example''))"
    by simp
  have 6: "frameEl (node ?w) = None"
    by (simp add: initialize_eq fresh_world_def fresh_node_def)
  have 7: "Click \<notin> set ?evs" and 8: "ImgError \<notin> set ?evs"
    by (simp_all add: example_resize_def)
  have 9: "getResourcePath ?h (getThumbnailPath ?h ?w) = ''app://local/linkCache/n1.thumbnail.jpg''"
    by (simp add: initialize_eq getThumbnailPath_def platform_def fresh_world_def fresh_node_def)
  have 10: "activations ?w = 0"
    by (simp add: initialize_eq fresh_world_def)
  from cache_hit_shows_snapshot_and_stays_dormant [OF 1 2 3 4 5 6 7 8] 1 4 9 10
  show ?thesis by simp
qed

text \<open>
  Claim C3, as the code behaves. Both files exist and \<^verbatim>\<open>JSON.parse\<close> throws on the
  metadata. The error leaves the async function of \<^verbatim>\<open>initialize\<close> as a rejection, no
  image is created and no label is set, and the node does not fall back to live
  rendering: whatever events follow, clicks included, the host's \<^verbatim>\<open>recreateFrame\<close> is
  never run. A missing file (line 125) and an image that fails to load (line 149) both do
  fall back.
\<close>

theorem unparsable_metadata_rejects_lookup:
  assumes "lookup w = AwaitingExists"
    and "files w (getThumbnailPath h w) = Some jpeg"
    and "files w (getMetadataPath h w) = Some raw"
    and "JSON_parse h raw = None"
    and "frameEl (node w) = None" and "perviewImageEl (node w) = None"
  shows "lookup (run h (ExistsResolved # ReadResolved # evs) w) = Rejected SyntaxError
       \<and> perviewImageEl (node (run h (ExistsResolved # ReadResolved # evs) w)) = None
       \<and> nodeLabel (node (run h (ExistsResolved # ReadResolved # evs) w)) = nodeLabel (node w)
       \<and> frameEl (node (run h (ExistsResolved # ReadResolved # evs) w)) = None
       \<and> activations (run h (ExistsResolved # ReadResolved # evs) w) = activations w"
proof -
  define w2 where "w2 = step h ReadResolved (step h ExistsResolved w)"
  from assms have rej:
    "lookup w2 = Rejected SyntaxError" "activations w2 = activations w"
    "frameEl (node w2) = None" "nodeLabel (node w2) = nodeLabel (node w)"
    "perviewImageEl (node w2) = None"
    by (simp_all add: w2_def existsResolved_def readResolved_def getThumbnailPath_def
        getMetadataPath_def)
  from rej quiet_run [of w2 evs h]
  show ?thesis by (simp add: run_Cons w2_def)
qed

theorem unparsable_metadata_rejects_lookup_witness:
  "JSON_parse (platform ''WEBVIEW'') ''{'' = None
   \<and> lookup (run (platform ''WEBVIEW'')
        (ExistsResolved # ReadResolved # [Click, ImgError, Elapse 5000])
        (initialize (platform ''WEBVIEW'')
           (fresh_world [''linkCache/n1.thumbnail.jpg'' \<mapsto> ''JPEG'',
                         ''linkCache/n1.metadata.json'' \<mapsto> ''{'']))) = Rejected SyntaxError
   \<and> perviewImageEl (node (run (platform ''WEBVIEW'')
        (ExistsResolved # ReadResolved # [Click, ImgError, Elapse 5000])
        (initialize (platform ''WEBVIEW'')
           (fresh_world [''linkCache/n1.thumbnail.jpg'' \<mapsto> ''JPEG'',
                         ''linkCache/n1.metadata.json'' \<mapsto> ''{''])))) = None
   \<and> frameEl (node (run (platform ''WEBVIEW'')
        (ExistsResolved # ReadResolved # [Click, ImgError, Elapse 5000])
        (initialize (platform ''WEBVIEW'')
           (fresh_world [''linkCache/n1.thumbnail.jpg'' \<mapsto> ''JPEG'',
                         ''linkCache/n1.metadata.json'' \<mapsto> ''{''])))) = None
   \<and> activations (run (platform ''WEBVIEW'')
        (ExistsResolved # ReadResolved # [Click, ImgError, Elapse 5000])
        (initialize (platform ''WEBVIEW'')
           (fresh_world [''linkCache/n1.thumbnail.jpg'' \<mapsto> ''JPEG'',
                         ''linkCache/n1.metadata.json'' \<mapsto> ''{'']))) = 0"
proof -
  let ?h = "platform ''WEBVIEW''"
  let ?w = "initialize ?h (fresh_world [''linkCache/n1.thumbnail.jpg'' \<mapsto> ''JPEG'',
                         ''linkCache/n1.metadata.json'' \<mapsto> ''{''])"
  have 1: "lookup ?w = AwaitingExists"
    by (simp add: initialize_eq)
  have 2: "files ?w (getThumbnailPath ?h ?w) = Some ''JPEG''"
    by (simp add: initialize_eq getThumbnailPath_def platform_def fresh_world_def fresh_node_def)
  have 3: "files ?w (getMetadataPath ?h ?w) = Some ''{''"
    by (simp add: initialize_eq getMetadataPath_def platform_def fresh_world_def fresh_node_def)
  have 4: "JSON_parse ?h ''{'' = None"
    by (simp add: platform_def example_parse_def example_metadata_def)
  have 5: "frameEl (node ?w) = None" and 6: "perviewImageEl (node ?w) = None"
    by (simp_all add: initialize_eq fresh_world_def fresh_node_def)
  have 7: "activations ?w = 0"
    by (simp add: initialize_eq fresh_world_def)
  from unparsable_metadata_rejects_lookup [OF 1 2 3 4 5 6, of "[Click, ImgError, Elapse 5000]"] 4 7
  show ?thesis by simp
qed

subsection \<open>The geometry filter\<close>

lemma mutation_loop_no_save:
  "\<forall>m \<in> set ms. classify nw nh m \<noteq> Save \<Longrightarrow> mutation_loop t nw nh ms timer = timer"
  by (induction ms) (auto split: verdict.splits)

text \<open>
  Claim C6. A record reaches \<^verbatim>\<open>saveThumbnail()\<close> exactly when it is a change of the style
  attribute, the old width and height (read from the old attribute text) and the new
  width and height are all non-empty, and the new width or the new height differs from
  the old one. A batch in which no record does leaves the debounce timer, and the whole
  state, as it was: nothing is scheduled.
\<close>

theorem unqualified_geometry_change_schedules_nothing:
  "(classify nw nh m = Save) =
     (mtype m = ''attributes'' \<and> attributeName m = Some ''style''
      \<and> old_dimension ''width:'' (case oldValue m of None \<Rightarrow> [] | Some v \<Rightarrow> v) \<noteq> []
      \<and> old_dimension ''height:'' (case oldValue m of None \<Rightarrow> [] | Some v \<Rightarrow> v) \<noteq> []
      \<and> nw \<noteq> [] \<and> nh \<noteq> []
      \<and> (nw \<noteq> old_dimension ''width:'' (case oldValue m of None \<Rightarrow> [] | Some v \<Rightarrow> v)
         \<or> nh \<noteq> old_dimension ''height:'' (case oldValue m of None \<Rightarrow> [] | Some v \<Rightarrow> v)))
   \<and> ((\<forall>m \<in> set ms. classify nw nh m \<noteq> Save) \<longrightarrow> observerCallback nw nh ms w = w)"
  by (auto simp: classify_def Let_def observerCallback_def mutation_loop_no_save)

theorem unqualified_geometry_change_schedules_nothing_witness:
  "classify ''100px'' ''100px''
      \<lparr>mtype = ''attributes'', attributeName = Some ''style'',
        oldValue = Some ''width: 100px; height: 100px;''\<rparr> = Stop
   \<and> classify ''100px'' ''100px''
      \<lparr>mtype = ''attributes'', attributeName = Some ''style'',
        oldValue = Some ''transform: none;''\<rparr> = Stop
   \<and> step (platform ''WEBVIEW'') (example_resize ''width: 100px; height: 100px;'' ''100px'' ''100px'')
        (initialize (platform ''WEBVIEW'') (fresh_world Map.empty))
      = initialize (platform ''WEBVIEW'') (fresh_world Map.empty)"
  using unqualified_geometry_change_schedules_nothing
          [of "''100px''" "''100px''"
              "\<lparr>mtype = ''attributes'', attributeName = Some ''style'',
                oldValue = Some ''width: 100px; height: 100px;''\<rparr>"
              "[\<lparr>mtype = ''attributes'', attributeName = Some ''style'',
                 oldValue = Some ''width: 100px; height: 100px;''\<rparr>]"
              "initialize (platform ''WEBVIEW'') (fresh_world Map.empty)"]
  by (simp add: classify_def old_dimension_def match_here_def trim_def js_space_def Let_def
        example_resize_def)

subsection \<open>The first load\<close>

text \<open>
  Claim C5, as stated, at a node whose frame is not a \<^verbatim>\<open>WEBVIEW\<close>. The test of line 161
  installs the load handler on a \<^verbatim>\<open>WEBVIEW\<close> only (``wont trigger on mobile''). On a
  host that creates an \<^verbatim>\<open>IFRAME\<close>, a fresh node with an empty cache goes live, and after
  the load and the settle delay nothing has been written.
\<close>

theorem mobile_load_writes_nothing_counterexample:
  "writes (run (platform ''IFRAME'')
      [ExistsResolved, FrameLoaded, Elapse 1000, CaptureResolved 0 ''JPEG'']
      (initialize (platform ''IFRAME'') (fresh_world Map.empty))) = []
   \<and> activations (run (platform ''IFRAME'')
      [ExistsResolved, FrameLoaded, Elapse 1000, CaptureResolved 0 ''JPEG'']
      (initialize (platform ''IFRAME'') (fresh_world Map.empty))) = 1
   \<and> frameEl (node (run (platform ''IFRAME'')
      [ExistsResolved, FrameLoaded, Elapse 1000, CaptureResolved 0 ''JPEG'']
      (initialize (platform ''IFRAME'') (fresh_world Map.empty)))) =
       Some \<lparr>tagName = ''IFRAME'', pageTitle = [], loadListeners = 0\<rparr>"
  by (simp add: run_def handlers examples elapse_to_none elapse_to_later elapse_to_fire)

text \<open>
  Claim C5, amended. A fresh node whose cache holds neither file, on a host that creates
  a \<^verbatim>\<open>WEBVIEW\<close>: the lookup runs the host's \<^verbatim>\<open>recreateFrame\<close> once; the title is \<open>t1\<close>
  when the frame finishes loading and becomes \<open>t2\<close> during the 1000 ms sleep; nothing is
  written before the sleep ends; then the metadata is written once with the title \<open>t2\<close>,
  one capture starts 1000 ms after the load, and the thumbnail is written once when it
  resolves.
\<close>

theorem first_load_writes_one_snapshot:
  assumes "lookup w = AwaitingExists" and "\<not> initializing (node w)"
    and "files w (getThumbnailPath h w) = None" and "files w (getMetadataPath h w) = None"
    and "origRecreateFrame h (frameEl (node w)) = Some f"
    and "tagName f = ''WEBVIEW''" and "loadListeners f = 0"
    and "debounceTimer w = None" and "settleTimers w = []" and "inflight w = []"
    and "b < 1000"
  shows "writes (run h [ExistsResolved, TitleChanged t1, Elapse a, FrameLoaded, Elapse b,
                        TitleChanged t2, Elapse (1000 - b), CaptureResolved 0 jpeg] w) =
           writes w @ [(getMetadataPath h w, JSON_stringify h (JObject [(''title'', JString t2)])),
                       (getThumbnailPath h w, jpeg)]
       \<and> captureStarts (run h [ExistsResolved, TitleChanged t1, Elapse a, FrameLoaded, Elapse b,
                        TitleChanged t2, Elapse (1000 - b), CaptureResolved 0 jpeg] w) =
           captureStarts w @ [now w + a + 1000]
       \<and> activations (run h [ExistsResolved, TitleChanged t1, Elapse a, FrameLoaded, Elapse b,
                        TitleChanged t2, Elapse (1000 - b), CaptureResolved 0 jpeg] w) =
           Suc (activations w)
       \<and> writes (run h [ExistsResolved, TitleChanged t1, Elapse a, FrameLoaded, Elapse b,
                        TitleChanged t2] w) = writes w"
  using assms
  by (simp add: run_def handlers elapse_to_none elapse_to_later elapse_to_fire)

theorem first_load_writes_one_snapshot_witness:
  "files (initialize (platform ''WEBVIEW'') (fresh_world Map.empty)) ''linkCache/n1.thumbnail.jpg'' = None
   \<and> files (initialize (platform ''WEBVIEW'') (fresh_world Map.empty)) ''linkCache/n1.metadata.json'' = None
   \<and> writes (run (platform ''WEBVIEW'')
        [ExistsResolved, TitleChanged ''Loading'', Elapse 250, FrameLoaded, Elapse 400,
         TitleChanged ''Example'', Elapse (1000 - 400), CaptureResolved 0 ''JPEG'']
        (initialize (platform ''WEBVIEW'') (fresh_world Map.empty))) =
       [(''linkCache/n1.metadata.json'', example_metadata), (''linkCache/n1.thumbnail.jpg'', ''JPEG'')]
   \<and> captureStarts (run (platform ''WEBVIEW'')
        [ExistsResolved, TitleChanged ''Loading'', Elapse 250, FrameLoaded, Elapse 400,
         TitleChanged ''Example'', Elapse (1000 - 400), CaptureResolved 0 ''JPEG'']
        (initialize (platform ''WEBVIEW'') (fresh_world Map.empty))) = [1250]"
proof -
  let ?h = "platform ''WEBVIEW''"
  let ?w = "initialize ?h (fresh_world Map.empty)"
  let ?f = "\<lparr>tagName = ''WEBVIEW'', pageTitle = [], loadListeners = 0\<rparr>"
  have 1: "lookup ?w = AwaitingExists" and 2: "\<not> initializing (node ?w)"
    by (simp_all add: initialize_eq)
  have 3: "files ?w (getThumbnailPath ?h ?w) = None"
    and 4: "files ?w (getMetadataPath ?h ?w) = None"
    by (simp_all add: initialize_eq fresh_world_def)
  have 5: "origRecreateFrame ?h (frameEl (node ?w)) = Some ?f"
    by (simp add: platform_def)
  have 6: "tagName ?f = ''WEBVIEW''" and 7: "loadListeners ?f = 0"
    by simp_all
  have 8: "debounceTimer ?w = None" and 9: "settleTimers ?w = []" and 10: "inflight ?w = []"
    by (simp_all add: initialize_eq fresh_world_def)
  have 11: "(400::nat) < 1000"
    by simp
  have paths: "getMetadataPath ?h ?w = ''linkCache/n1.metadata.json''"
    "getThumbnailPath ?h ?w = ''linkCache/n1.thumbnail.jpg''"
    by (simp_all add: initialize_eq getMetadataPath_def getThumbnailPath_def platform_def
        fresh_world_def fresh_node_def)
  have meta: "JSON_stringify ?h (JObject [(''title'', JString ''Example'')]) = example_metadata"
    by (simp add: platform_def example_stringify_def example_metadata_def)
  have init: "writes ?w = []" "captureStarts ?w = []" "now ?w = 0"
    by (simp_all add: initialize_eq fresh_world_def)
  from first_load_writes_one_snapshot [OF 1 2 3 4 5 6 7 8 9 10 11, of "''Loading''" 250 "''Example''" "''JPEG''"]
    3 4 paths meta init
  show ?thesis by simp
qed

text \<open>On a frame that is not a \<^verbatim>\<open>WEBVIEW\<close>, \<^verbatim>\<open>recreateFrame\<close> installs no load handler.\<close>

lemma no_load_handler_without_webview:
  "\<not> initializing (node w) \<Longrightarrow> origRecreateFrame h (frameEl (node w)) = Some f \<Longrightarrow>
     tagName f \<noteq> ''WEBVIEW'' \<Longrightarrow> frameEl (node (snd (recreateFrame h w))) = Some f"
  by (simp add: recreateFrame_def)

subsection \<open>The debounce timer\<close>

text \<open>What the third argument of \<^verbatim>\<open>debounce\<close> decides.\<close>

lemma debounce_call_flag:
  "debounce_call True timeout t timer = Some (t + timeout)"
  "debounce_call False timeout t (Some d) = Some d"
  "debounce_call False timeout t None = Some (t + timeout)"
  by (simp_all add: debounce_call_def split: option.splits)

lemma mutation_loop_pending:
  "mutation_loop t nw nh ms (Some D) = Some D"
  by (induction ms) (simp_all add: debounce_call_def split: verdict.splits)

lemma mutation_loop_fresh:
  "mutation_loop t nw nh ms None = (if batch_saves nw nh ms then Some (t + 500) else None)"
  by (induction ms) (simp_all add: debounce_call_def mutation_loop_pending split: verdict.splits)

text \<open>
  While the debounce timer is pending and no sleep is, geometry events and waits that
  end before the deadline change nothing but the clock.
\<close>

lemma burst_keeps_deadline:
  assumes "debounceTimer w = Some D" and "settleTimers w = []"
    and "\<forall>e \<in> set evs. geometry_only e" and "now w + waited evs < D"
  shows "run h evs w = w\<lparr>now := now w + waited evs\<rparr>"
  using assms
proof (induction evs arbitrary: w)
  case Nil
  then show ?case by (simp add: run_def)
next
  case (Cons e evs)
  show ?case
  proof (cases e)
    case (Mutations nw nh ms)
    with Cons.prems have "step h e w = w"
      by (cases w) (simp add: observerCallback_def mutation_loop_pending)
    with Cons.IH [of w] Cons.prems Mutations show ?thesis
      by (simp add: run_Cons)
  next
    case (Elapse d)
    from Cons.prems have nt: "next_timer w = Some (D, DebounceTimer)"
      by (simp add: next_timer_def)
    from Cons.prems Elapse have "now w + d < D" by simp
    with nt Elapse have st: "step h e w = w\<lparr>now := now w + d\<rparr>"
      by (simp add: elapse_to_later)
    from Cons.prems Elapse Cons.IH [of "w\<lparr>now := now w + d\<rparr>"]
    have "run h evs (w\<lparr>now := now w + d\<rparr>) = w\<lparr>now := now w + d + waited evs\<rparr>"
      by (simp add: add.assoc)
    with st Elapse show ?thesis by (simp add: run_Cons add.assoc)
  qed (use Cons.prems in simp_all)
qed

text \<open>
  Claim C2, as stated, on the code. Three qualifying events 100 ms apart, at 0, 100 and 200:
  the capture starts at 500, which is 500 ms after the first event and 200 ms before the
  quiet window of the last one ends. Three qualifying events 400 ms apart, each within
  500 ms of the one before: two captures, at 500 and at 1300.
\<close>

theorem burst_resets_no_timer_counterexample:
  "captureStarts (run (platform ''WEBVIEW'')
      [ExistsResolved,
       example_resize ''width: 100px; height: 100px;'' ''110px'' ''100px'', Elapse 100,
       example_resize ''width: 110px; height: 100px;'' ''120px'' ''100px'', Elapse 100,
       example_resize ''width: 120px; height: 100px;'' ''130px'' ''100px'', Elapse 300]
      (initialize (platform ''WEBVIEW'') (fresh_world Map.empty))) = [500]
   \<and> now (run (platform ''WEBVIEW'')
      [ExistsResolved,
       example_resize ''width: 100px; height: 100px;'' ''110px'' ''100px'', Elapse 100,
       example_resize ''width: 110px; height: 100px;'' ''120px'' ''100px'', Elapse 100,
       example_resize ''width: 120px; height: 100px;'' ''130px'' ''100px'', Elapse 300]
      (initialize (platform ''WEBVIEW'') (fresh_world Map.empty))) = 500
   \<and> captureStarts (run (platform ''WEBVIEW'')
      [ExistsResolved,
       example_resize ''width: 100px; height: 100px;'' ''110px'' ''100px'', Elapse 400,
       example_resize ''width: 110px; height: 100px;'' ''120px'' ''100px'', Elapse 400,
       example_resize ''width: 120px; height: 100px;'' ''130px'' ''100px'', Elapse 500]
      (initialize (platform ''WEBVIEW'') (fresh_world Map.empty))) = [500, 1300]"
  by (simp add: run_def handlers examples elapse_to_none elapse_to_later elapse_to_fire)

text \<open>
  Claim C2, amended. \<^verbatim>\<open>debounce\<close> is called without \<^verbatim>\<open>resetTimer\<close>, so an event that
  arrives while the timer is pending does not restart it. From a state with a \<^verbatim>\<open>WEBVIEW\<close>
  frame, no timer and no sleep pending: a batch that qualifies starts the 500 ms timer;
  whatever geometry events follow in less than 500 ms leave the deadline where it is and
  start no capture; once 500 ms have passed since the first event, exactly one capture
  has started, at that instant, and no timer is pending; a batch that qualifies after
  that starts a new 500 ms timer.
\<close>

theorem burst_captures_once_after_first_event:
  assumes "observing w" and "debounceTimer w = None" and "settleTimers w = []"
    and "frameEl (node w) = Some f" and "tagName f = ''WEBVIEW''"
    and "batch_saves nw nh ms"
    and "\<forall>e \<in> set evs. geometry_only e" and "waited evs < 500" and "500 \<le> waited evs + d"
    and "batch_saves nw' nh' ms'"
  shows "captureStarts (run h (Mutations nw nh ms # evs @ [Elapse d]) w) =
           captureStarts w @ [now w + 500]
       \<and> inflight (run h (Mutations nw nh ms # evs @ [Elapse d]) w) = inflight w @ [FromResize]
       \<and> debounceTimer (run h (Mutations nw nh ms # evs @ [Elapse d]) w) = None
       \<and> captureStarts (run h (Mutations nw nh ms # evs) w) = captureStarts w
       \<and> debounceTimer (run h (Mutations nw nh ms # evs) w) = Some (now w + 500)
       \<and> debounceTimer (run h (Mutations nw nh ms # evs @ [Elapse d, Mutations nw' nh' ms']) w) =
           Some (now w + waited evs + d + 500)"
proof -
  define w1 where "w1 = w\<lparr>debounceTimer := Some (now w + 500)\<rparr>"
  define w2 where "w2 = w\<lparr>debounceTimer := Some (now w + 500), now := now w + waited evs\<rparr>"
  define w3 where "w3 = step h (Elapse d) w2"
  from assms have s1: "step h (Mutations nw nh ms) w = w1"
    by (simp add: observerCallback_def mutation_loop_fresh w1_def)
  from assms have "run h evs w1 = w1\<lparr>now := now w1 + waited evs\<rparr>"
    by (intro burst_keeps_deadline [where D = "now w + 500"]) (simp_all add: w1_def)
  then have s2: "run h evs w1 = w2"
    by (simp add: w1_def w2_def)
  from assms have nt: "next_timer w2 = Some (now w + 500, DebounceTimer)"
    by (simp add: w2_def next_timer_def)
  from assms have le: "now w + 500 \<le> now w2 + d"
    by (simp add: w2_def)
  define wF where "wF = fire_timer h DebounceTimer (w2\<lparr>now := max (now w2) (now w + 500)\<rparr>)"
  from assms have f:
    "settleTimers wF = []" "debounceTimer wF = None" "observing wF"
    "inflight wF = inflight w @ [FromResize]"
    "captureStarts wF = captureStarts w @ [now w + 500]"
    "now wF = now w + 500"
    by (simp_all add: wF_def w2_def fire_timer_def saveThumbnail_def max_def)
  from f have "next_timer wF = None"
    by (simp add: next_timer_def)
  with elapse_to_fire [OF nt le, of h]
  have "w3 = wF\<lparr>now := max (now wF) (now w2 + d)\<rparr>"
    by (simp add: w3_def wF_def elapse_to_none)
  with assms f have s3:
    "captureStarts w3 = captureStarts w @ [now w + 500]"
    "inflight w3 = inflight w @ [FromResize]"
    "debounceTimer w3 = None" "observing w3"
    "now w3 = now w + waited evs + d"
    by (simp_all add: w2_def max_def)
  from assms s3
  have s4: "debounceTimer (step h (Mutations nw' nh' ms') w3) = Some (now w + waited evs + d + 500)"
    by (simp add: observerCallback_def mutation_loop_fresh)
  have r1: "run h (Mutations nw nh ms # evs) w = w2"
    by (simp only: run_Cons s1 s2)
  have r2: "run h (Mutations nw nh ms # evs @ [Elapse d]) w = w3"
    by (simp only: run_Cons run_append run_Nil s1 s2 w3_def)
  have r3: "run h (Mutations nw nh ms # evs @ [Elapse d, Mutations nw' nh' ms']) w =
              step h (Mutations nw' nh' ms') w3"
    by (simp only: run_Cons run_append run_Nil s1 s2 w3_def)
  from s3 s4 show ?thesis
    by (simp add: r1 r2 r3) (simp add: w2_def)
qed

theorem burst_captures_once_after_first_event_witness:
  "batch_saves ''110px'' ''100px''
      [\<lparr>mtype = ''attributes'', attributeName = Some ''style'',
         oldValue = Some ''width: 100px; height: 100px;''\<rparr>]
   \<and> waited [Elapse 100, example_resize ''width: 110px; height: 100px;'' ''120px'' ''100px'',
              Elapse 100, example_resize ''width: 120px; height: 100px;'' ''130px'' ''100px''] = 200
   \<and> captureStarts (run (platform ''WEBVIEW'')
        (Mutations ''110px'' ''100px''
           [\<lparr>mtype = ''attributes'', attributeName = Some ''style'',
             oldValue = Some ''width: 100px; height: 100px;''\<rparr>]
         # [Elapse 100, example_resize ''width: 110px; height: 100px;'' ''120px'' ''100px'',
            Elapse 100, example_resize ''width: 120px; height: 100px;'' ''130px'' ''100px'']
         @ [Elapse 300])
        (existsResolved (platform ''WEBVIEW'')
           (initialize (platform ''WEBVIEW'') (fresh_world Map.empty)))) = [500]
   \<and> debounceTimer (run (platform ''WEBVIEW'')
        (Mutations ''110px'' ''100px''
           [\<lparr>mtype = ''attributes'', attributeName = Some ''style'',
             oldValue = Some ''width: 100px; height: 100px;''\<rparr>]
         # [Elapse 100, example_resize ''width: 110px; height: 100px;'' ''120px'' ''100px'',
            Elapse 100, example_resize ''width: 120px; height: 100px;'' ''130px'' ''100px'']
         @ [Elapse 300,
            Mutations ''140px'' ''100px''
              [\<lparr>mtype = ''attributes'', attributeName = Some ''style'',
                oldValue = Some ''width: 130px; height: 100px;''\<rparr>]])
        (existsResolved (platform ''WEBVIEW'')
           (initialize (platform ''WEBVIEW'') (fresh_world Map.empty)))) = Some 1000"
proof -
  let ?h = "platform ''WEBVIEW''"
  let ?w = "existsResolved ?h (initialize ?h (fresh_world Map.empty))"
  let ?f = "\<lparr>tagName = ''WEBVIEW'', pageTitle = [], loadListeners = 1\<rparr>"
  let ?ms = "[\<lparr>mtype = ''attributes'', attributeName = Some ''style'',
             oldValue = Some ''width: 100px; height: 100px;''\<rparr>]"
  let ?ms' = "[\<lparr>mtype = ''attributes'', attributeName = Some ''style'',
             oldValue = Some ''width: 130px; height: 100px;''\<rparr>]"
  let ?evs = "[Elapse 100, example_resize ''width: 110px; height: 100px;'' ''120px'' ''100px'',
               Elapse 100, example_resize ''width: 120px; height: 100px;'' ''130px'' ''100px'']"
  have 1: "observing ?w" and 2: "debounceTimer ?w = None" and 3: "settleTimers ?w = []"
    and 4: "frameEl (node ?w) = Some ?f"
    and init: "captureStarts ?w = []" "now ?w = 0"
    by (simp_all add: existsResolved_def recreateFrame_def initialize_eq fresh_world_def
        fresh_node_def platform_def)
  have 5: "tagName ?f = ''WEBVIEW''"
    by simp
  have 6: "batch_saves ''110px'' ''100px'' ?ms" and 10: "batch_saves ''140px'' ''100px'' ?ms'"
    by (simp_all add: classify_def old_dimension_def match_here_def trim_def js_space_def)
  have 7: "\<forall>e \<in> set ?evs. geometry_only e"
    by (simp add: example_resize_def)
  have w: "waited ?evs = 200"
    by (simp add: example_resize_def)
  have 8: "waited ?evs < 500" and 9: "500 \<le> waited ?evs + 300"
    by (simp_all add: example_resize_def)
  from burst_captures_once_after_first_event [OF 1 2 3 4 5 6 7 8 9 10, of ?h] 6 w init
  show ?thesis by simp
qed

subsection \<open>Captures in flight\<close>

text \<open>
  Claim C8, as stated, on the code. The frame finishes loading at 0 and a qualifying
  resize arrives at 600. \<^verbatim>\<open>onFrameLoaded\<close> calls \<^verbatim>\<open>capturePage()\<close> at 1000; the debounce
  timer fires at 1100 and calls it again while the first call has not resolved: two
  captures are in flight.
\<close>

theorem captures_overlap_counterexample:
  "inflight (run (platform ''WEBVIEW'')
      [ExistsResolved, FrameLoaded, Elapse 600,
       example_resize ''width: 100px; height: 100px;'' ''110px'' ''100px'', Elapse 500]
      (initialize (platform ''WEBVIEW'') (fresh_world Map.empty))) = [FromLoad, FromResize]
   \<and> captureStarts (run (platform ''WEBVIEW'')
      [ExistsResolved, FrameLoaded, Elapse 600,
       example_resize ''width: 100px; height: 100px;'' ''110px'' ''100px'', Elapse 500]
      (initialize (platform ''WEBVIEW'') (fresh_world Map.empty))) = [1000, 1100]"
  by (simp add: run_def handlers examples elapse_to_none elapse_to_later elapse_to_fire)

text \<open>
  Claim C8, amended. Nothing in \<^verbatim>\<open>_saveThumbnail\<close> waits for an earlier call. With a
  \<^verbatim>\<open>WEBVIEW\<close> frame present, every call, from the debounce timer or from \<^verbatim>\<open>onFrameLoaded\<close>,
  calls \<^verbatim>\<open>capturePage()\<close> at once and adds one capture to those in flight, however many
  there are. So when a sleep of \<^verbatim>\<open>onFrameLoaded\<close> ends at \<open>S\<close> and the debounce timer fires
  at a later \<open>D\<close>, with no capture resolving in between, both captures are in flight
  together.
\<close>

theorem captures_start_while_one_is_in_flight:
  assumes "frameEl (node w) = Some f" and "tagName f = ''WEBVIEW''"
  shows "inflight (saveThumbnail orig w) = inflight w @ [orig]
       \<and> captureStarts (saveThumbnail orig w) = captureStarts w @ [now w]
       \<and> inflight (fire_timer h DebounceTimer w) = inflight w @ [FromResize]
       \<and> inflight (onFrameLoaded_resume h w) = inflight w @ [FromLoad]
       \<and> (settleTimers w = [S] \<and> debounceTimer w = Some D \<and> S < D \<and> D \<le> now w + d \<longrightarrow>
            inflight (step h (Elapse d) w) = inflight w @ [FromLoad, FromResize]
          \<and> captureStarts (step h (Elapse d) w) =
              captureStarts w @ [max (now w) S, max (now w) D])"
proof -
  from assms have calls:
    "inflight (saveThumbnail orig w) = inflight w @ [orig]"
    "captureStarts (saveThumbnail orig w) = captureStarts w @ [now w]"
    "inflight (fire_timer h DebounceTimer w) = inflight w @ [FromResize]"
    "inflight (onFrameLoaded_resume h w) = inflight w @ [FromLoad]"
    by (simp_all add: saveThumbnail_def fire_timer_def onFrameLoaded_resume_def write_file_def)
  have both: "inflight (step h (Elapse d) w) = inflight w @ [FromLoad, FromResize]
      \<and> captureStarts (step h (Elapse d) w) = captureStarts w @ [max (now w) S, max (now w) D]"
    if t: "settleTimers w = [S]" "debounceTimer w = Some D" "S < D" "D \<le> now w + d"
  proof -
    define wA where "wA = fire_timer h (SettleTimer 0) (w\<lparr>now := max (now w) S\<rparr>)"
    define wB where "wB = fire_timer h DebounceTimer (wA\<lparr>now := max (now wA) D\<rparr>)"
    from t have n1: "next_timer w = Some (S, SettleTimer 0)"
      by (simp add: next_timer_def)
    from t have le1: "S \<le> now w + d"
      by simp
    from assms t have a:
      "settleTimers wA = []" "debounceTimer wA = Some D" "now wA = max (now w) S"
      "frameEl (node wA) = Some f" "inflight wA = inflight w @ [FromLoad]"
      "captureStarts wA = captureStarts w @ [max (now w) S]"
      by (simp_all add: wA_def fire_timer_def onFrameLoaded_resume_def saveThumbnail_def
          write_file_def)
    from a have n2: "next_timer wA = Some (D, DebounceTimer)"
      by (simp add: next_timer_def)
    from assms t a have b:
      "settleTimers wB = []" "debounceTimer wB = None"
      "inflight wB = inflight w @ [FromLoad, FromResize]"
      "captureStarts wB = captureStarts w @ [max (now w) S, max (now w) D]"
      by (simp_all add: wB_def fire_timer_def saveThumbnail_def max_def)
    from b have n3: "next_timer wB = None"
      by (simp add: next_timer_def)
    have "step h (Elapse d) w = elapse_to h (now w + d) wA"
      using elapse_to_fire [OF n1 le1, of h] by (simp add: wA_def)
    also have "\<dots> = elapse_to h (now w + d) wB"
      using elapse_to_fire [OF n2 t(4), of h] by (simp add: wB_def)
    also have "\<dots> = wB\<lparr>now := max (now wB) (now w + d)\<rparr>"
      using n3 by (rule elapse_to_none)
    finally show ?thesis
      using b by simp
  qed
  from calls both show ?thesis
    by blast
qed

theorem captures_start_while_one_is_in_flight_witness:
  "inflight (run (platform ''WEBVIEW'') [ExistsResolved, FrameLoaded, Elapse 1000]
      (initialize (platform ''WEBVIEW'') (fresh_world Map.empty))) = [FromLoad]
   \<and> inflight (saveThumbnail FromResize
        (run (platform ''WEBVIEW'') [ExistsResolved, FrameLoaded, Elapse 1000]
           (initialize (platform ''WEBVIEW'') (fresh_world Map.empty)))) = [FromLoad, FromResize]"
proof -
  let ?h = "platform ''WEBVIEW''"
  let ?w = "run ?h [ExistsResolved, FrameLoaded, Elapse 1000] (initialize ?h (fresh_world Map.empty))"
  let ?f = "\<lparr>tagName = ''WEBVIEW'', pageTitle = [], loadListeners = 0\<rparr>"
  have 1: "frameEl (node ?w) = Some ?f"
    and 2: "inflight ?w = [FromLoad]"
    by (simp_all add: run_def handlers examples elapse_to_none elapse_to_later elapse_to_fire)
  have 3: "tagName ?f = ''WEBVIEW''"
    by simp
  from captures_start_while_one_is_in_flight [OF 1 3, of FromResize ?h] 2
  show ?thesis by simp
qed

subsection \<open>Teardown\<close>

text \<open>
  Claim C9, as stated, on the code. A node has loaded its frame and has been resized; the
  host removes it. The debounce timer, the sleep of \<^verbatim>\<open>onFrameLoaded\<close> and the observer are
  all still there, and the sleep ends 1000 ms later in a rejection.
\<close>

theorem teardown_keeps_timers_counterexample:
  "debounceTimer (teardown (platform ''WEBVIEW'') (run (platform ''WEBVIEW'')
      [ExistsResolved, FrameLoaded,
       example_resize ''width: 100px; height: 100px;'' ''110px'' ''100px'']
      (initialize (platform ''WEBVIEW'') (fresh_world Map.empty)))) = Some 500
   \<and> settleTimers (teardown (platform ''WEBVIEW'') (run (platform ''WEBVIEW'')
      [ExistsResolved, FrameLoaded,
       example_resize ''width: 100px; height: 100px;'' ''110px'' ''100px'']
      (initialize (platform ''WEBVIEW'') (fresh_world Map.empty)))) = [1000]
   \<and> observing (teardown (platform ''WEBVIEW'') (run (platform ''WEBVIEW'')
      [ExistsResolved, FrameLoaded,
       example_resize ''width: 100px; height: 100px;'' ''110px'' ''100px'']
      (initialize (platform ''WEBVIEW'') (fresh_world Map.empty))))
   \<and> rejections (run (platform ''WEBVIEW'') [Elapse 1000]
       (teardown (platform ''WEBVIEW'') (run (platform ''WEBVIEW'')
         [ExistsResolved, FrameLoaded,
          example_resize ''width: 100px; height: 100px;'' ''110px'' ''100px'']
         (initialize (platform ''WEBVIEW'') (fresh_world Map.empty))))) = [TypeError]"
  by (simp add: run_def teardown_def handlers examples elapse_to_none elapse_to_later elapse_to_fire)

text \<open>
  Claim C9, amended. The plugin has no code that runs when a node is torn down. Whatever
  the host does to the node object, the debounce timer and the sleeps pending before are
  pending after and fire when they would have, and the observer goes on handling
  batches.
\<close>

theorem teardown_releases_nothing:
  "debounceTimer (teardown h w) = debounceTimer w
   \<and> settleTimers (teardown h w) = settleTimers w
   \<and> observing (teardown h w) = observing w
   \<and> next_timer (teardown h w) = next_timer w
   \<and> observerCallback nw nh ms (teardown h w) = teardown h (observerCallback nw nh ms w)"
  by (simp add: teardown_def next_timer_def observerCallback_def split: option.splits)

theorem teardown_releases_nothing_witness:
  "next_timer (teardown (platform ''WEBVIEW'') (run (platform ''WEBVIEW'')
      [ExistsResolved, FrameLoaded,
       example_resize ''width: 100px; height: 100px;'' ''110px'' ''100px'']
      (initialize (platform ''WEBVIEW'') (fresh_world Map.empty)))) = Some (500, DebounceTimer)"
proof -
  let ?h = "platform ''WEBVIEW''"
  let ?w = "run ?h [ExistsResolved, FrameLoaded,
       example_resize ''width: 100px; height: 100px;'' ''110px'' ''100px'']
      (initialize ?h (fresh_world Map.empty))"
  have "next_timer ?w = Some (500, DebounceTimer)"
    by (simp add: run_def handlers examples)
  with teardown_releases_nothing [of ?h ?w] show ?thesis by simp
qed

end
